theory Spec2Isabelle
  imports Complex_Main "HOL-Library.Multiset"
begin

section \<open>Data model (types.ts)\<close>

text \<open>
  The analytics engine of \<^verbatim>\<open>src/utils/analytics.ts\<close> works on the \<^verbatim>\<open>Trade\<close>
  interface. The record below holds the fields the three analytics functions read; the
  other fields of the interface (symbol, prices, notes, ...) are never read by them.

  Timestamps are epoch milliseconds and are modelled as integers. The optional
  \<^verbatim>\<open>exitDate\<close> is an \<open>int option\<close>: \<open>None\<close> stands for a missing value
  (\<^verbatim>\<open>undefined\<close>, \<^verbatim>\<open>null\<close> or \<^verbatim>\<open>NaN\<close>, which are all falsy and are
  treated alike by every expression of the source that reads the field).
  Currency amounts are finite numbers and are modelled as reals: sums, differences and
  products are taken exactly (no rounding, no overflow, no signed zero).
\<close>

datatype TradeStatus = OPEN | CLOSED | PENDING

datatype Session = ASIA | LONDON | NY | OVERLAP

record Trade =
  id_t :: string
  entryDate :: int
  exitDate :: "int option"
  netPnL :: real
  riskAmount :: real
  session :: Session
  status :: TradeStatus

record UserProfile =
  startBalance :: real
  maxRiskPerTrade :: real

subsection \<open>JavaScript numbers that a division can produce\<close>

text \<open>
  A JavaScript division never raises: dividing by zero yields \<^verbatim>\<open>Infinity\<close>,
  \<^verbatim>\<open>-Infinity\<close> or \<^verbatim>\<open>NaN\<close>. Every value of the source that flows out of a
  division is therefore a \<open>jsnum\<close>.
\<close>

datatype jsnum = Num real | PInf | NInf | NaN

fun jdiv :: "jsnum \<Rightarrow> jsnum \<Rightarrow> jsnum" where
  "jdiv NaN _ = NaN"
| "jdiv _ NaN = NaN"
| "jdiv (Num a) (Num b) =
     (if b \<noteq> 0 then Num (a / b)
      else if a > 0 then PInf else if a < 0 then NInf else NaN)"
| "jdiv (Num a) PInf = Num 0"
| "jdiv (Num a) NInf = Num 0"
| "jdiv PInf (Num b) = (if b \<ge> 0 then PInf else NInf)"
| "jdiv NInf (Num b) = (if b \<ge> 0 then NInf else PInf)"
| "jdiv PInf PInf = NaN"
| "jdiv PInf NInf = NaN"
| "jdiv NInf PInf = NaN"
| "jdiv NInf NInf = NaN"

fun jmul :: "jsnum \<Rightarrow> jsnum \<Rightarrow> jsnum" where
  "jmul NaN _ = NaN"
| "jmul _ NaN = NaN"
| "jmul (Num a) (Num b) = Num (a * b)"
| "jmul (Num a) PInf = (if a > 0 then PInf else if a < 0 then NInf else NaN)"
| "jmul (Num a) NInf = (if a > 0 then NInf else if a < 0 then PInf else NaN)"
| "jmul PInf (Num b) = (if b > 0 then PInf else if b < 0 then NInf else NaN)"
| "jmul NInf (Num b) = (if b > 0 then NInf else if b < 0 then PInf else NaN)"
| "jmul PInf PInf = PInf"
| "jmul PInf NInf = NInf"
| "jmul NInf PInf = NInf"
| "jmul NInf NInf = PInf"

fun jsub :: "jsnum \<Rightarrow> jsnum \<Rightarrow> jsnum" where
  "jsub NaN _ = NaN"
| "jsub _ NaN = NaN"
| "jsub (Num a) (Num b) = Num (a - b)"
| "jsub (Num a) PInf = NInf"
| "jsub (Num a) NInf = PInf"
| "jsub PInf (Num b) = PInf"
| "jsub NInf (Num b) = NInf"
| "jsub PInf PInf = NaN"
| "jsub PInf NInf = PInf"
| "jsub NInf PInf = NInf"
| "jsub NInf NInf = NaN"

text \<open>The comparison \<^verbatim>\<open>a > b\<close>: false whenever an operand is \<^verbatim>\<open>NaN\<close>.\<close>

fun jgt :: "jsnum \<Rightarrow> jsnum \<Rightarrow> bool" where
  "jgt NaN _ = False"
| "jgt _ NaN = False"
| "jgt (Num a) (Num b) = (a > b)"
| "jgt (Num a) PInf = False"
| "jgt (Num a) NInf = True"
| "jgt PInf (Num b) = True"
| "jgt NInf (Num b) = False"
| "jgt PInf PInf = False"
| "jgt PInf NInf = True"
| "jgt NInf PInf = False"
| "jgt NInf NInf = False"

fun isFinite :: "jsnum \<Rightarrow> bool" where
  "isFinite (Num _) = True"
| "isFinite _ = False"

section \<open>calculateMetrics\<close>

record Metrics =
  totalTrades :: nat
  winRate :: jsnum
  profitFactor :: jsnum
  expectancy :: jsnum
  averageWin :: jsnum
  averageLoss :: jsnum
  maxDrawdown :: real
  maxDrawdownPercent :: jsnum
  netProfit :: real
  largestWin :: real
  largestLoss :: real
  currentStreak :: int

text \<open>The sort key \<^verbatim>\<open>(t.exitDate || 0)\<close>.\<close>

definition exitOr0 :: "Trade \<Rightarrow> int" where
  "exitOr0 t = (case exitDate t of None \<Rightarrow> 0 | Some e \<Rightarrow> e)"

text \<open>
  \<^verbatim>\<open>trades.filter(t => t.status === TradeStatus.CLOSED).sort((a, b) => (a.exitDate || 0) - (b.exitDate || 0))\<close>.
  \<^verbatim>\<open>Array.prototype.sort\<close> is stable; so is \<open>sort_key\<close>.
\<close>

definition closedSorted :: "Trade list \<Rightarrow> Trade list" where
  "closedSorted trades = sort_key exitOr0 (filter (\<lambda>t. status t = CLOSED) trades)"

text \<open>The local variables of \<^verbatim>\<open>calculateMetrics\<close> that the \<^verbatim>\<open>forEach\<close> loop updates.\<close>

record locals =
  wins :: nat
  grossProfit :: real
  grossLoss :: real
  maxEquity :: real
  currentEquity :: real
  maxDD :: real
  maxDDPercent :: jsnum
  largestWin_l :: real
  largestLoss_l :: real
  currentStreak_l :: int

text \<open>One iteration of the loop body (lines 19 to 49).\<close>

definition metrics_step :: "locals \<Rightarrow> Trade \<Rightarrow> locals" where
  "metrics_step a trade =
    (let pnl = netPnL trade;
         currentEquity' = currentEquity a + pnl;
         maxEquity' = (if currentEquity' > maxEquity a then currentEquity' else maxEquity a);
         dd = maxEquity' - currentEquity';
         ddPercent = jmul (jdiv (Num dd) (Num maxEquity')) (Num 100);
         a1 = a\<lparr> currentEquity := currentEquity',
                 maxEquity := maxEquity',
                 maxDD := (if dd > maxDD a then dd else maxDD a),
                 maxDDPercent := (if jgt ddPercent (maxDDPercent a) then ddPercent
                                  else maxDDPercent a) \<rparr>
     in if pnl > 0 then
          a1\<lparr> wins := wins a + 1,
              grossProfit := grossProfit a + pnl,
              largestWin_l := (if pnl > largestWin_l a then pnl else largestWin_l a),
              currentStreak_l := (if currentStreak_l a \<ge> 0 then currentStreak_l a + 1 else 1) \<rparr>
        else
          a1\<lparr> grossLoss := grossLoss a + \<bar>pnl\<bar>,
              largestLoss_l := (if pnl < largestLoss_l a then pnl else largestLoss_l a),
              currentStreak_l := (if currentStreak_l a \<le> 0 then currentStreak_l a - 1 else - 1) \<rparr>)"

definition metrics_init :: "real \<Rightarrow> locals" where
  "metrics_init initialBalance =
     \<lparr> wins = 0, grossProfit = 0, grossLoss = 0,
       maxEquity = initialBalance, currentEquity = initialBalance,
       maxDD = 0, maxDDPercent = Num 0,
       largestWin_l = 0, largestLoss_l = 0, currentStreak_l = 0 \<rparr>"

text \<open>Lines 51 to 77: the derived ratios and the returned object.\<close>

definition metrics_result :: "real \<Rightarrow> nat \<Rightarrow> locals \<Rightarrow> Metrics" where
  "metrics_result initialBalance totalTrades_l a =
    (let losses = int totalTrades_l - int (wins a);
         winRate = (if totalTrades_l > 0
                    then jmul (jdiv (Num (real (wins a))) (Num (real totalTrades_l))) (Num 100)
                    else Num 0);
         profitFactor = (if grossLoss a > 0 then jdiv (Num (grossProfit a)) (Num (grossLoss a))
                         else if grossProfit a > 0 then Num 999 else Num 0);
         averageWin = (if wins a > 0 then jdiv (Num (grossProfit a)) (Num (real (wins a)))
                       else Num 0);
         averageLoss = (if losses > 0 then jdiv (Num (grossLoss a)) (Num (real_of_int losses))
                        else Num 0);
         netProfit = currentEquity a - initialBalance;
         winPct = jdiv (Num (real (wins a))) (Num (real totalTrades_l));
         lossPct = jdiv (Num (real_of_int losses)) (Num (real totalTrades_l));
         expectancy = (if totalTrades_l > 0
                       then jsub (jmul winPct averageWin) (jmul lossPct averageLoss)
                       else Num 0)
     in \<lparr> totalTrades = totalTrades_l,
          winRate = winRate,
          profitFactor = profitFactor,
          expectancy = expectancy,
          averageWin = averageWin,
          averageLoss = averageLoss,
          maxDrawdown = maxDD a,
          maxDrawdownPercent = maxDDPercent a,
          netProfit = netProfit,
          largestWin = largestWin_l a,
          largestLoss = largestLoss_l a,
          currentStreak = currentStreak_l a \<rparr>)"

definition calculateMetrics :: "Trade list \<Rightarrow> real \<Rightarrow> Metrics" where
  "calculateMetrics trades initialBalance =
    (let closedTrades = closedSorted trades
     in metrics_result initialBalance (length closedTrades)
          (foldl metrics_step (metrics_init initialBalance) closedTrades))"

text \<open>
  The parameter is declared \<^verbatim>\<open>initialBalance: number = 100000\<close>: a call that leaves
  the balance out computes with 100000.
\<close>

definition calculateMetrics_default :: "Trade list \<Rightarrow> real option \<Rightarrow> Metrics" where
  "calculateMetrics_default trades initialBalance =
     calculateMetrics trades (case initialBalance of None \<Rightarrow> 100000 | Some b \<Rightarrow> b)"

section \<open>generateEquityCurve\<close>

record EquityPoint =
  date :: string
  timestamp :: int
  equity :: real
  drawdown :: real

text \<open>
  What the functions take from the JavaScript runtime rather than from their arguments:
  the clock (\<^verbatim>\<open>Date.now()\<close>), the locale's date format
  (\<^verbatim>\<open>new Date(ms).toLocaleDateString()\<close>, as a function of the timestamp), and the
  two number-to-string conversions used in a message of \<^verbatim>\<open>getTradeViolations\<close>
  (template-literal interpolation and \<^verbatim>\<open>toFixed(0)\<close>).
\<close>

record runtime =
  now :: int
  toLocaleDateString :: "int \<Rightarrow> string"
  numberToString :: "real \<Rightarrow> string"
  toFixed0 :: "real \<Rightarrow> string"

text \<open>
  \<^verbatim>\<open>Number(x.toFixed(2))\<close>: below \<open>10\<^sup>2\<^sup>1\<close> in magnitude, \<^verbatim>\<open>toFixed\<close> takes the sign
  off, picks the integer \<open>n\<close> with \<open>n / 100\<close> nearest to the magnitude (the larger one
  on a tie) and puts the sign back; from \<open>10\<^sup>2\<^sup>1\<close> on it prints the number itself.
  Here the rounding is applied to the exact real; the program applies it to the double,
  which can lie just below a decimal tie.
\<close>

definition toFixed2 :: "real \<Rightarrow> real" where
  "toFixed2 x =
     (if \<bar>x\<bar> \<ge> 10 ^ 21 then x
      else if x < 0 then - (of_int \<lfloor>\<bar>x\<bar> * 100 + 1 / 2\<rfloor> / 100)
      else of_int \<lfloor>x * 100 + 1 / 2\<rfloor> / 100)"

text \<open>The \<^verbatim>\<open>forEach\<close> loop of lines 97 to 109, pushing one point per trade.\<close>

fun curve_points :: "runtime \<Rightarrow> real \<Rightarrow> real \<Rightarrow> Trade list \<Rightarrow> EquityPoint list" where
  "curve_points rt currentBalance maxBalance [] = []"
| "curve_points rt currentBalance maxBalance (trade # rest) =
     (let currentBalance' = currentBalance + netPnL trade;
          maxBalance' = (if currentBalance' > maxBalance then currentBalance' else maxBalance);
          ddPercent = (if maxBalance' > 0
                       then ((maxBalance' - currentBalance') / maxBalance') * 100 else 0)
      in \<lparr> date = toLocaleDateString rt (exitOr0 trade),
           timestamp = exitOr0 trade,
           equity = toFixed2 currentBalance',
           drawdown = toFixed2 ddPercent \<rparr>
         # curve_points rt currentBalance' maxBalance' rest)"

definition generateEquityCurve :: "runtime \<Rightarrow> Trade list \<Rightarrow> real \<Rightarrow> EquityPoint list" where
  "generateEquityCurve rt trades initialBalance =
    (let sortedTrades = closedSorted trades
     in \<lparr> date = ''Start'',
          timestamp = (case sortedTrades of [] \<Rightarrow> now rt | t # _ \<Rightarrow> entryDate t - 86400000),
          equity = initialBalance,
          drawdown = 0 \<rparr>
        # curve_points rt initialBalance initialBalance sortedTrades)"

section \<open>getTradeViolations\<close>

definition REVENGE_WINDOW_MS :: int where
  "REVENGE_WINDOW_MS = 30 * 60 * 1000"

text \<open>
  \<^verbatim>\<open>new Date(ms).getUTCHours()\<close>: a time value beyond 8.64e15 ms in magnitude makes an
  invalid date, whose hour is \<^verbatim>\<open>NaN\<close> (here \<open>None\<close>); every comparison with it
  is false.
\<close>

definition getUTCHours :: "int \<Rightarrow> int option" where
  "getUTCHours ms =
     (if \<bar>ms\<bar> > 8640000000000000 then None else Some ((ms div 3600000) mod 24))"

definition hour_lt :: "int option \<Rightarrow> int \<Rightarrow> bool" where
  "hour_lt h k = (case h of None \<Rightarrow> False | Some x \<Rightarrow> x < k)"

definition hour_ge :: "int option \<Rightarrow> int \<Rightarrow> bool" where
  "hour_ge h k = (case h of None \<Rightarrow> False | Some x \<Rightarrow> x \<ge> k)"

definition revenge_message :: string where
  "revenge_message = ''Potential revenge trading (entry <30m after loss)''"

text \<open>JavaScript truthiness of the optional \<^verbatim>\<open>exitDate\<close>: missing and 0 are falsy.\<close>

definition truthy :: "int option \<Rightarrow> bool" where
  "truthy d = (case d of None \<Rightarrow> False | Some e \<Rightarrow> e \<noteq> 0)"

text \<open>
  Lines 168 to 172. In \<^verbatim>\<open>t.exitDate && t.exitDate <= trade.entryDate\<close> the comparison is
  reached only for a truthy exitDate, whose value is then \<open>exitOr0 t\<close>. The comparator
  \<^verbatim>\<open>(b.exitDate || 0) - (a.exitDate || 0)\<close> sorts descending, and the sort is stable.
\<close>

definition previous_filter :: "Trade \<Rightarrow> Trade \<Rightarrow> bool" where
  "previous_filter trade t =
     (id_t t \<noteq> id_t trade \<and> truthy (exitDate t) \<and> exitOr0 t \<le> entryDate trade)"

definition previousTrades :: "Trade \<Rightarrow> Trade list \<Rightarrow> Trade list" where
  "previousTrades trade allTrades =
     sort_key (\<lambda>t. - exitOr0 t) (filter (previous_filter trade) allTrades)"

text \<open>Lines 174 to 181, on the sorted \<^verbatim>\<open>previousTrades\<close>.\<close>

definition revenge_check :: "Trade \<Rightarrow> Trade list \<Rightarrow> string list" where
  "revenge_check trade previous =
     (case previous of
        [] \<Rightarrow> []
      | lastTrade # _ \<Rightarrow>
          if netPnL lastTrade < 0 \<and> truthy (exitDate lastTrade) then
            (if entryDate trade - exitOr0 lastTrade < REVENGE_WINDOW_MS
             then [revenge_message] else [])
          else [])"

definition session_check :: "Trade \<Rightarrow> string list" where
  "session_check trade =
     (let entryHour = getUTCHours (entryDate trade)
      in case session trade of
           LONDON \<Rightarrow>
             if hour_lt entryHour 7 \<or> hour_ge entryHour 17
             then [''Trade executed outside London session''] else []
         | NY \<Rightarrow>
             if hour_lt entryHour 12 \<or> hour_ge entryHour 22
             then [''Trade executed outside NY session''] else []
         | ASIA \<Rightarrow>
             (let isAsiaTime = (hour_ge entryHour 22 \<or> hour_lt entryHour 9)
              in if \<not> isAsiaTime then [''Trade executed outside Asia session''] else [])
         | OVERLAP \<Rightarrow> [])"

definition risk_check :: "runtime \<Rightarrow> Trade \<Rightarrow> UserProfile option \<Rightarrow> string list" where
  "risk_check rt trade profile =
     (let MAX_RISK_AMOUNT =
            (case profile of
               Some p \<Rightarrow> startBalance p * maxRiskPerTrade p / 100
             | None \<Rightarrow> 2000);
          MAX_LOSS_MULTIPLIER = 3 / 2
      in (if riskAmount trade > MAX_RISK_AMOUNT
          then [''Risk ($'' @ numberToString rt (riskAmount trade)
                @ '') exceeds max limit ($'' @ toFixed0 rt MAX_RISK_AMOUNT @ '')'']
          else [])
         @ (if netPnL trade < 0 \<and> \<bar>netPnL trade\<bar> > riskAmount trade * MAX_LOSS_MULTIPLIER
               \<and> riskAmount trade > 0
            then [''Loss exceeded planned risk significantly (Slippage/Discipline)'']
            else []))"

definition getTradeViolations ::
  "runtime \<Rightarrow> Trade \<Rightarrow> Trade list \<Rightarrow> UserProfile option \<Rightarrow> string list" where
  "getTradeViolations rt trade allTrades profile =
     risk_check rt trade profile
     @ session_check trade
     @ revenge_check trade (previousTrades trade allTrades)"

section \<open>The functions on a store\<close>

text \<open>
  JavaScript arrays and objects are references. To state what a call leaves unchanged,
  the three functions are also given on an explicit store: trade objects and arrays of
  object references live at addresses, \<^verbatim>\<open>filter\<close> allocates a fresh array, and
  \<^verbatim>\<open>sort\<close> sorts the array it is called on in place and returns that same array.
  The source never assigns to a field of a trade object, so no operation below writes
  to \<open>objects\<close>. Arrays that a function builds and returns (the curve, the
  violations) are returned as values.
\<close>

record store =
  objects :: "nat \<Rightarrow> Trade"
  arrays :: "nat \<Rightarrow> nat list"
  nextArray :: nat

definition array_read :: "nat \<Rightarrow> store \<Rightarrow> Trade list" where
  "array_read a s = map (objects s) (arrays s a)"

definition array_filter :: "(Trade \<Rightarrow> bool) \<Rightarrow> nat \<Rightarrow> store \<Rightarrow> nat \<times> store" where
  "array_filter P a s =
     (let b = nextArray s
      in (b, s\<lparr> arrays := (arrays s)(b := filter (\<lambda>r. P (objects s r)) (arrays s a)),
                nextArray := b + 1 \<rparr>))"

definition array_sort :: "(Trade \<Rightarrow> int) \<Rightarrow> nat \<Rightarrow> store \<Rightarrow> nat \<times> store" where
  "array_sort key a s =
     (a, s\<lparr> arrays := (arrays s)(a := sort_key (\<lambda>r. key (objects s r)) (arrays s a)) \<rparr>)"

definition calculateMetrics_h :: "nat \<Rightarrow> real \<Rightarrow> store \<Rightarrow> Metrics \<times> store" where
  "calculateMetrics_h trades initialBalance s =
     (let (filtered, s1) = array_filter (\<lambda>t. status t = CLOSED) trades s;
          (closedTrades, s2) = array_sort exitOr0 filtered s1;
          xs = array_read closedTrades s2
      in (metrics_result initialBalance (length xs)
            (foldl metrics_step (metrics_init initialBalance) xs), s2))"

definition generateEquityCurve_h ::
  "runtime \<Rightarrow> nat \<Rightarrow> real \<Rightarrow> store \<Rightarrow> EquityPoint list \<times> store" where
  "generateEquityCurve_h rt trades initialBalance s =
     (let (filtered, s1) = array_filter (\<lambda>t. status t = CLOSED) trades s;
          (sortedTrades, s2) = array_sort exitOr0 filtered s1;
          xs = array_read sortedTrades s2
      in (\<lparr> date = ''Start'',
            timestamp = (case xs of [] \<Rightarrow> now rt | t # _ \<Rightarrow> entryDate t - 86400000),
            equity = initialBalance,
            drawdown = 0 \<rparr>
          # curve_points rt initialBalance initialBalance xs, s2))"

definition getTradeViolations_h ::
  "runtime \<Rightarrow> nat \<Rightarrow> nat \<Rightarrow> UserProfile option \<Rightarrow> store \<Rightarrow> string list \<times> store" where
  "getTradeViolations_h rt tradeRef allTrades profile s =
     (let trade = objects s tradeRef;
          (filtered, s1) = array_filter (previous_filter trade) allTrades s;
          (previous, s2) = array_sort (\<lambda>t. - exitOr0 t) filtered s1
      in (risk_check rt trade profile
          @ session_check trade
          @ revenge_check trade (array_read previous s2), s2))"

section \<open>The revenge-trading rule in the specification's words\<close>

text \<open>
  The trade with the latest exitDate of a list; among several with that exitDate, the
  one that comes first in the list.
\<close>

fun latest_exit :: "Trade list \<Rightarrow> Trade option" where
  "latest_exit [] = None"
| "latest_exit (t # ts) =
     (case latest_exit ts of
        None \<Rightarrow> Some t
      | Some p \<Rightarrow> if exitOr0 p > exitOr0 t then Some p else Some t)"

text \<open>
  "If that trade was a loss (netPnL < 0) and this trade's entryDate is less than 30
  minutes after that trade's exitDate, flag"; with no preceding trade, nothing is flagged.
\<close>

definition revenge_rule :: "Trade \<Rightarrow> Trade option \<Rightarrow> bool" where
  "revenge_rule trade prev =
     (case prev of
        None \<Rightarrow> False
      | Some p \<Rightarrow> netPnL p < 0 \<and> entryDate trade - exitOr0 p < 30 * 60 * 1000)"

text \<open>
  The candidates as the specification words them: another trade (by id) whose exitDate is
  defined and at or before this trade's entryDate.
\<close>

definition exit_defined_before :: "Trade \<Rightarrow> Trade \<Rightarrow> bool" where
  "exit_defined_before trade t =
     (id_t t \<noteq> id_t trade \<and>
      (case exitDate t of None \<Rightarrow> False | Some e \<Rightarrow> e \<le> entryDate trade))"

text \<open>The candidates with the exitDate 0 left out as well.\<close>

definition exit_nonzero_before :: "Trade \<Rightarrow> Trade \<Rightarrow> bool" where
  "exit_nonzero_before trade t =
     (id_t t \<noteq> id_t trade \<and>
      (case exitDate t of None \<Rightarrow> False | Some e \<Rightarrow> e \<noteq> 0 \<and> e \<le> entryDate trade))"

section \<open>The drawdown computations over any arithmetic\<close>

text \<open>
  The definitions above compute with exact reals. The program computes with IEEE doubles:
  every operation rounds, sums can overflow to \<^verbatim>\<open>Infinity\<close>, and \<^verbatim>\<open>toFixed(2)\<close>
  rounds the double, not the decimal it was written as. To state how
  \<^verbatim>\<open>maxDrawdownPercent\<close> relates to the curve's drawdown values without depending
  on any of that, the two drawdown computations are given once more with the arithmetic
  as a parameter.
\<close>

text \<open>
  The operations the drawdown computations use, for any type \<open>'n\<close> of numbers:
  \<^verbatim>\<open>+\<close>, \<^verbatim>\<open>-\<close>, \<^verbatim>\<open>*\<close>, \<^verbatim>\<open>/\<close>, the comparison \<^verbatim>\<open>>\<close>, the number
  that the program holds for a literal or an input value, and \<^verbatim>\<open>Number(x.toFixed(2))\<close>.
\<close>

record 'n arith =
  num_add :: "'n \<Rightarrow> 'n \<Rightarrow> 'n"
  num_sub :: "'n \<Rightarrow> 'n \<Rightarrow> 'n"
  num_mul :: "'n \<Rightarrow> 'n \<Rightarrow> 'n"
  num_div :: "'n \<Rightarrow> 'n \<Rightarrow> 'n"
  num_gt :: "'n \<Rightarrow> 'n \<Rightarrow> bool"
  num_lit :: "real \<Rightarrow> 'n"
  num_fixed2 :: "'n \<Rightarrow> 'n"

text \<open>
  Lines 20 to 31 of \<^verbatim>\<open>calculateMetrics\<close>, for the three variables that
  \<^verbatim>\<open>maxDDPercent\<close> depends on (\<open>cur\<close> is \<^verbatim>\<open>currentEquity\<close>, \<open>peak\<close> is
  \<^verbatim>\<open>maxEquity\<close>, \<open>best\<close> is \<^verbatim>\<open>maxDDPercent\<close>), over the netPnL values of the
  sorted CLOSED trades.
\<close>

fun metrics_dd :: "'n arith \<Rightarrow> 'n \<Rightarrow> 'n \<Rightarrow> 'n \<Rightarrow> 'n list \<Rightarrow> 'n" where
  "metrics_dd ar cur peak best [] = best"
| "metrics_dd ar cur peak best (pnl # rest) =
     (let cur' = num_add ar cur pnl;
          peak' = (if num_gt ar cur' peak then cur' else peak);
          dd = num_sub ar peak' cur';
          ddPercent = num_mul ar (num_div ar dd peak') (num_lit ar 100)
      in metrics_dd ar cur' peak'
           (if num_gt ar ddPercent best then ddPercent else best) rest)"

text \<open>
  Lines 98 to 107 of \<^verbatim>\<open>generateEquityCurve\<close>: the \<^verbatim>\<open>drawdown\<close> field of each
  pushed point (\<open>cur\<close> is \<^verbatim>\<open>currentBalance\<close>, \<open>peak\<close> is \<^verbatim>\<open>maxBalance\<close>).
\<close>

fun curve_dd :: "'n arith \<Rightarrow> 'n \<Rightarrow> 'n \<Rightarrow> 'n list \<Rightarrow> 'n list" where
  "curve_dd ar cur peak [] = []"
| "curve_dd ar cur peak (pnl # rest) =
     (let cur' = num_add ar cur pnl;
          peak' = (if num_gt ar cur' peak then cur' else peak);
          ddPercent = (if num_gt ar peak' (num_lit ar 0)
                       then num_mul ar (num_div ar (num_sub ar peak' cur') peak')
                              (num_lit ar 100)
                       else num_lit ar 0)
      in num_fixed2 ar ddPercent # curve_dd ar cur' peak' rest)"

text \<open>
  Whether, at every trade where \<^verbatim>\<open>calculateMetrics\<close> raises \<^verbatim>\<open>maxDDPercent\<close>, the
  peak is greater than 0 (so that the guard of \<^verbatim>\<open>generateEquityCurve\<close> is passed there).
\<close>

fun raises_guarded :: "'n arith \<Rightarrow> 'n \<Rightarrow> 'n \<Rightarrow> 'n \<Rightarrow> 'n list \<Rightarrow> bool" where
  "raises_guarded ar cur peak best [] = True"
| "raises_guarded ar cur peak best (pnl # rest) =
     (let cur' = num_add ar cur pnl;
          peak' = (if num_gt ar cur' peak then cur' else peak);
          dd = num_sub ar peak' cur';
          ddPercent = num_mul ar (num_div ar dd peak') (num_lit ar 100)
      in if num_gt ar ddPercent best
         then num_gt ar peak' (num_lit ar 0)
              \<and> raises_guarded ar cur' peak' ddPercent rest
         else raises_guarded ar cur' peak' best rest)"

text \<open>
  The two computations on a trade list and a starting balance; the curve's first value is
  the Start point's literal 0.
\<close>

definition closed_pnls :: "'n arith \<Rightarrow> Trade list \<Rightarrow> 'n list" where
  "closed_pnls ar trades = map (\<lambda>t. num_lit ar (netPnL t)) (closedSorted trades)"

definition maxDrawdownPercent_g :: "'n arith \<Rightarrow> Trade list \<Rightarrow> real \<Rightarrow> 'n" where
  "maxDrawdownPercent_g ar trades initialBalance =
     metrics_dd ar (num_lit ar initialBalance) (num_lit ar initialBalance) (num_lit ar 0)
       (closed_pnls ar trades)"

definition curve_drawdowns_g :: "'n arith \<Rightarrow> Trade list \<Rightarrow> real \<Rightarrow> 'n list" where
  "curve_drawdowns_g ar trades initialBalance =
     num_lit ar 0
     # curve_dd ar (num_lit ar initialBalance) (num_lit ar initialBalance) (closed_pnls ar trades)"

definition raises_guarded_g :: "'n arith \<Rightarrow> Trade list \<Rightarrow> real \<Rightarrow> bool" where
  "raises_guarded_g ar trades initialBalance =
     raises_guarded ar (num_lit ar initialBalance) (num_lit ar initialBalance) (num_lit ar 0)
       (closed_pnls ar trades)"

text \<open>
  The exact arithmetic of this theory as one instance: \<open>jsnum\<close> with the operations of
  the section on JavaScript numbers, and \<open>toFixed2\<close> on the finite values
  (\<^verbatim>\<open>toFixed\<close> prints \<^verbatim>\<open>Infinity\<close> and \<^verbatim>\<open>NaN\<close> as they are).
\<close>

fun jadd :: "jsnum \<Rightarrow> jsnum \<Rightarrow> jsnum" where
  "jadd NaN _ = NaN"
| "jadd _ NaN = NaN"
| "jadd (Num a) (Num b) = Num (a + b)"
| "jadd (Num a) PInf = PInf"
| "jadd (Num a) NInf = NInf"
| "jadd PInf (Num b) = PInf"
| "jadd NInf (Num b) = NInf"
| "jadd PInf PInf = PInf"
| "jadd PInf NInf = NaN"
| "jadd NInf PInf = NaN"
| "jadd NInf NInf = NInf"

fun jfixed2 :: "jsnum \<Rightarrow> jsnum" where
  "jfixed2 (Num x) = Num (toFixed2 x)"
| "jfixed2 v = v"

definition exact_arith :: "jsnum arith" where
  "exact_arith = \<lparr> num_add = jadd, num_sub = jsub, num_mul = jmul, num_div = jdiv,
                   num_gt = jgt, num_lit = Num, num_fixed2 = jfixed2 \<rparr>"

section \<open>Example inputs\<close>

definition rt0 :: runtime where
  "rt0 = \<lparr> now = 1700000000000, toLocaleDateString = (\<lambda>ms. ''11/14/2023''),
           numberToString = (\<lambda>x. ''n''), toFixed0 = (\<lambda>x. ''n'') \<rparr>"

definition losing_trade :: Trade where
  "losing_trade = \<lparr> id_t = ''TRD-1'', entryDate = 1700000000000, exitDate = Some 1700000600000,
     netPnL = - 100, riskAmount = 50, session = NY, status = CLOSED \<rparr>"


definition closed_no_exit :: Trade where
  "closed_no_exit = \<lparr> id_t = ''TRD-2'', entryDate = 1700000000000, exitDate = None,
     netPnL = 250, riskAmount = 50, session = NY, status = CLOSED \<rparr>"

text \<open>A loss that closed at the epoch itself, and a trade entered one minute later.\<close>

definition epoch_loss :: Trade where
  "epoch_loss = \<lparr> id_t = ''TRD-0'', entryDate = 0, exitDate = Some 0,
     netPnL = - 100, riskAmount = 50, session = OVERLAP, status = CLOSED \<rparr>"

definition epoch_entry :: Trade where
  "epoch_entry = \<lparr> id_t = ''TRD-9'', entryDate = 60000, exitDate = None,
     netPnL = 0, riskAmount = 50, session = OVERLAP, status = OPEN \<rparr>"

text \<open>
  A trade entered at 1700003600000, and three others that exited 10, 20 and 5 minutes
  before that entry.
\<close>

definition late_entry :: Trade where
  "late_entry = \<lparr> id_t = ''TRD-10'', entryDate = 1700003600000, exitDate = None,
     netPnL = 0, riskAmount = 50, session = OVERLAP, status = OPEN \<rparr>"

definition open_loss :: Trade where
  "open_loss = \<lparr> id_t = ''TRD-11'', entryDate = 1700000000000, exitDate = Some 1700003000000,
     netPnL = - 100, riskAmount = 50, session = OVERLAP, status = OPEN \<rparr>"

definition closed_loss :: Trade where
  "closed_loss = \<lparr> id_t = ''TRD-12'', entryDate = 1700000000000, exitDate = Some 1700002400000,
     netPnL = - 100, riskAmount = 50, session = OVERLAP, status = CLOSED \<rparr>"

definition pending_win :: Trade where
  "pending_win = \<lparr> id_t = ''TRD-13'', entryDate = 1700000000000, exitDate = Some 1700003300000,
     netPnL = 40, riskAmount = 50, session = OVERLAP, status = PENDING \<rparr>"

text \<open>
  A store with one array, at address 0, holding two CLOSED trades in descending order of
  exitDate, so that sorting it in place would change it.
\<close>

definition store0 :: store where
  "store0 = \<lparr> objects = (\<lambda>r. if r = 0 then pending_win\<lparr>status := CLOSED\<rparr> else closed_loss),
              arrays = (\<lambda>a. if a = 0 then [0, 1] else []),
              nextArray = 1 \<rparr>"

text \<open>
  The specification's worked example: three closed trades with netPnL +1000, -2000 and
  +500 (given here out of order), starting balance 10000.
\<close>

definition spec_trade :: "string \<Rightarrow> int \<Rightarrow> real \<Rightarrow> Trade" where
  "spec_trade i x pnl = \<lparr> id_t = i, entryDate = x - 3600000, exitDate = Some x,
     netPnL = pnl, riskAmount = 150, session = OVERLAP, status = CLOSED \<rparr>"

definition spec_trades :: "Trade list" where
  "spec_trades = [spec_trade ''B'' 1700000200000 (- 2000), spec_trade ''C'' 1700000300000 500,
                  spec_trade ''A'' 1700000100000 1000]"

section \<open>Lemmas\<close>

subsection \<open>Sorting and mapping\<close>

lemma insort_key_map: "insort_key k (g x) (map g xs) = map g (insort_key (\<lambda>y. k (g y)) x xs)"
  by (induction xs) simp_all

lemma sort_key_map: "sort_key k (map g xs) = map g (sort_key (\<lambda>y. k (g y)) xs)"
  by (induction xs) (simp_all add: insort_key_map)


lemma closedSorted_Nil: "(closedSorted ts = []) = (filter (\<lambda>t. status t = CLOSED) ts = [])"
proof -
  have "length (closedSorted ts) = length (filter (\<lambda>t. status t = CLOSED) ts)"
    by (simp add: closedSorted_def)
  then show ?thesis by (metis length_0_conv)
qed






subsection \<open>The equity curve's points\<close>

lemma length_curve_points: "length (curve_points rt c m ts) = length ts"
  by (induction ts arbitrary: c m) (simp_all add: Let_def)

lemma timestamp_curve_points: "map timestamp (curve_points rt c m ts) = map exitOr0 ts"
  by (induction ts arbitrary: c m) (simp_all add: Let_def)

lemma curve_points_now: "curve_points (rt\<lparr>now := n\<rparr>) c m ts = curve_points rt c m ts"
  by (induction ts arbitrary: c m) (simp_all add: Let_def)

subsection \<open>Rounding to two decimals is monotone\<close>

lemma toFixed2_0: "toFixed2 0 = 0"
  by (simp add: toFixed2_def)

lemma toFixed2_small:
  "0 \<le> x \<Longrightarrow> x < 10 ^ 21 \<Longrightarrow> toFixed2 x = of_int \<lfloor>x * 100 + 1 / 2\<rfloor> / 100"
  by (simp add: toFixed2_def)

lemma toFixed2_big: "10 ^ 21 \<le> x \<Longrightarrow> toFixed2 x = x"
  by (simp add: toFixed2_def)

lemma toFixed2_small_le:
  assumes "0 \<le> x" "x < 10 ^ 21"
  shows "toFixed2 x \<le> 10 ^ 21"
proof -
  from assms have "x * 100 + 1 / 2 < 10 ^ 23 + 1" by simp
  then have "\<lfloor>x * 100 + 1 / 2\<rfloor> < (10 ^ 23 + 1 :: int)"
    by (simp add: floor_less_iff)
  then have "\<lfloor>x * 100 + 1 / 2\<rfloor> \<le> (10 ^ 23 :: int)" by simp
  then have "real_of_int \<lfloor>x * 100 + 1 / 2\<rfloor> \<le> real_of_int (10 ^ 23)"
    by (simp only: of_int_le_iff)
  then have "real_of_int \<lfloor>x * 100 + 1 / 2\<rfloor> / 100 \<le> 10 ^ 21" by simp
  with assms show ?thesis by (simp only: toFixed2_small)
qed

lemma toFixed2_mono:
  assumes "0 \<le> x" "x \<le> y"
  shows "toFixed2 x \<le> toFixed2 y"
proof (cases "y \<ge> 10 ^ 21")
  case True
  then have ty: "toFixed2 y = y" by (rule toFixed2_big)
  show ?thesis
  proof (cases "x \<ge> 10 ^ 21")
    case True
    then have "toFixed2 x = x" by (rule toFixed2_big)
    with ty assms show ?thesis by simp
  next
    case False
    then have "x < 10 ^ 21" by simp
    with assms have "toFixed2 x \<le> 10 ^ 21" by (intro toFixed2_small_le)
    with ty True show ?thesis by linarith
  qed
next
  case False
  then have y: "y < 10 ^ 21" by simp
  with assms have x: "x < 10 ^ 21" by simp
  have "\<lfloor>x * 100 + 1 / 2\<rfloor> \<le> \<lfloor>y * 100 + 1 / 2\<rfloor>"
    using assms by (intro floor_mono) simp
  then have "real_of_int \<lfloor>x * 100 + 1 / 2\<rfloor> / 100 \<le> real_of_int \<lfloor>y * 100 + 1 / 2\<rfloor> / 100"
    by (simp add: divide_right_mono)
  moreover have "toFixed2 x = of_int \<lfloor>x * 100 + 1 / 2\<rfloor> / 100"
    using assms x by (intro toFixed2_small) simp_all
  moreover have "toFixed2 y = of_int \<lfloor>y * 100 + 1 / 2\<rfloor> / 100"
    using assms y by (intro toFixed2_small) simp_all
  ultimately show ?thesis by simp
qed

lemma toFixed2_neg: "x < 0 \<Longrightarrow> toFixed2 x = - toFixed2 (- x)"
  by (simp add: toFixed2_def)

lemma toFixed2_nonneg: "0 \<le> x \<Longrightarrow> 0 \<le> toFixed2 x"
  using toFixed2_mono[of 0 x] by (simp add: toFixed2_0)

lemma toFixed2_mono_all:
  assumes "x \<le> y"
  shows "toFixed2 x \<le> toFixed2 y"
proof (cases "0 \<le> x")
  case True
  with assms show ?thesis by (intro toFixed2_mono)
next
  case False
  then have x: "x < 0" by simp
  show ?thesis
  proof (cases "0 \<le> y")
    case True
    have "0 \<le> toFixed2 (- x)" using x by (intro toFixed2_nonneg) simp
    moreover have "0 \<le> toFixed2 y" using True by (rule toFixed2_nonneg)
    ultimately show ?thesis using x by (simp add: toFixed2_neg)
  next
    case False
    then have y: "y < 0" by simp
    have "toFixed2 (- y) \<le> toFixed2 (- x)" using assms y by (intro toFixed2_mono) simp_all
    then show ?thesis using x y by (simp add: toFixed2_neg)
  qed
qed

subsection \<open>The drawdown computations over any arithmetic\<close>

lemma metrics_dd_not_below:
  assumes trans: "\<And>x y z. num_gt ar x y \<Longrightarrow> num_gt ar y z \<Longrightarrow> num_gt ar x z"
    and "\<not> num_gt ar y m"
  shows "\<not> num_gt ar y (metrics_dd ar c p m pnls)"
  using assms(2)
proof (induction pnls arbitrary: c p m)
  case Nil
  then show ?case by simp
next
  case (Cons pnl rest)
  let ?c = "num_add ar c pnl"
  let ?p = "if num_gt ar ?c p then ?c else p"
  let ?d = "num_mul ar (num_div ar (num_sub ar ?p ?c) ?p) (num_lit ar 100)"
  let ?m = "if num_gt ar ?d m then ?d else m"
  have "\<not> num_gt ar y ?m"
  proof (cases "num_gt ar ?d m")
    case True
    have "\<not> num_gt ar y ?d"
    proof
      assume "num_gt ar y ?d"
      then have "num_gt ar y m" using True by (rule trans)
      with Cons.prems show False by simp
    qed
    with True show ?thesis by simp
  next
    case False
    with Cons.prems show ?thesis by simp
  qed
  then have "\<not> num_gt ar y (metrics_dd ar ?c ?p ?m rest)" by (rule Cons.IH)
  then show ?case by (simp add: Let_def)
qed

lemma curve_dd_none_greater:
  assumes irrefl: "\<And>x. \<not> num_gt ar x x"
    and trans: "\<And>x y z. num_gt ar x y \<Longrightarrow> num_gt ar y z \<Longrightarrow> num_gt ar x z"
    and mono: "\<And>x y. num_gt ar (num_fixed2 ar x) (num_fixed2 ar y) \<Longrightarrow> num_gt ar x y"
    and "\<not> num_gt ar (num_lit ar 0) m"
  shows "\<forall>x\<in>set (curve_dd ar c p pnls). \<not> num_gt ar x (num_fixed2 ar (metrics_dd ar c p m pnls))"
  using assms(4)
proof (induction pnls arbitrary: c p m)
  case Nil
  then show ?case by simp
next
  case (Cons pnl rest)
  let ?c = "num_add ar c pnl"
  let ?p = "if num_gt ar ?c p then ?c else p"
  let ?d = "num_mul ar (num_div ar (num_sub ar ?p ?c) ?p) (num_lit ar 100)"
  let ?m = "if num_gt ar ?d m then ?d else m"
  let ?M = "metrics_dd ar ?c ?p ?m rest"
  let ?z = "num_lit ar 0"
  have z: "\<not> num_gt ar ?z ?m"
  proof (cases "num_gt ar ?d m")
    case True
    have "\<not> num_gt ar ?z ?d"
    proof
      assume "num_gt ar ?z ?d"
      then have "num_gt ar ?z m" using True by (rule trans)
      with Cons.prems show False by simp
    qed
    with True show ?thesis by simp
  next
    case False
    with Cons.prems show ?thesis by simp
  qed
  have d: "\<not> num_gt ar ?d ?m"
  proof (cases "num_gt ar ?d m")
    case True
    then show ?thesis using irrefl[of ?d] by simp
  next
    case False
    then show ?thesis by simp
  qed
  have zM: "\<not> num_gt ar ?z ?M"
    using trans z by (rule metrics_dd_not_below)
  have dM: "\<not> num_gt ar ?d ?M"
    using trans d by (rule metrics_dd_not_below)
  have fz: "\<not> num_gt ar (num_fixed2 ar ?z) (num_fixed2 ar ?M)"
  proof
    assume "num_gt ar (num_fixed2 ar ?z) (num_fixed2 ar ?M)"
    then have "num_gt ar ?z ?M" by (rule mono)
    with zM show False by simp
  qed
  have fd: "\<not> num_gt ar (num_fixed2 ar ?d) (num_fixed2 ar ?M)"
  proof
    assume "num_gt ar (num_fixed2 ar ?d) (num_fixed2 ar ?M)"
    then have "num_gt ar ?d ?M" by (rule mono)
    with dM show False by simp
  qed
  have x0: "\<not> num_gt ar (num_fixed2 ar (if num_gt ar ?p ?z then ?d else ?z)) (num_fixed2 ar ?M)"
  proof (cases "num_gt ar ?p ?z")
    case True
    then show ?thesis using fd by simp
  next
    case False
    then show ?thesis using fz by simp
  qed
  have rest: "\<forall>x\<in>set (curve_dd ar ?c ?p rest). \<not> num_gt ar x (num_fixed2 ar ?M)"
    using z by (rule Cons.IH)
  have cd: "curve_dd ar c p (pnl # rest)
      = num_fixed2 ar (if num_gt ar ?p ?z then ?d else ?z) # curve_dd ar ?c ?p rest"
    by (simp add: Let_def)
  have md: "metrics_dd ar c p m (pnl # rest) = ?M"
    by (simp add: Let_def)
  show ?case unfolding cd md using x0 rest by simp
qed

lemma curve_dd_attained:
  assumes "raises_guarded ar c p m pnls"
  shows "num_fixed2 ar (metrics_dd ar c p m pnls) = num_fixed2 ar m
       \<or> num_fixed2 ar (metrics_dd ar c p m pnls) \<in> set (curve_dd ar c p pnls)"
  using assms
proof (induction pnls arbitrary: c p m)
  case Nil
  then show ?case by simp
next
  case (Cons pnl rest)
  let ?c = "num_add ar c pnl"
  let ?p = "if num_gt ar ?c p then ?c else p"
  let ?d = "num_mul ar (num_div ar (num_sub ar ?p ?c) ?p) (num_lit ar 100)"
  let ?z = "num_lit ar 0"
  have cd: "curve_dd ar c p (pnl # rest)
      = num_fixed2 ar (if num_gt ar ?p ?z then ?d else ?z) # curve_dd ar ?c ?p rest"
    by (simp add: Let_def)
  show ?case
  proof (cases "num_gt ar ?d m")
    case True
    with Cons.prems have g: "num_gt ar ?p ?z" and r: "raises_guarded ar ?c ?p ?d rest"
      by (simp_all add: Let_def)
    have md: "metrics_dd ar c p m (pnl # rest) = metrics_dd ar ?c ?p ?d rest"
      using True by (simp add: Let_def)
    from Cons.IH[OF r] have
      "num_fixed2 ar (metrics_dd ar ?c ?p ?d rest) = num_fixed2 ar ?d
       \<or> num_fixed2 ar (metrics_dd ar ?c ?p ?d rest) \<in> set (curve_dd ar ?c ?p rest)" .
    then show ?thesis unfolding cd md using g by auto
  next
    case False
    with Cons.prems have r: "raises_guarded ar ?c ?p m rest" by (simp add: Let_def)
    have md: "metrics_dd ar c p m (pnl # rest) = metrics_dd ar ?c ?p m rest"
      using False by (simp add: Let_def)
    from Cons.IH[OF r] show ?thesis unfolding cd md by auto
  qed
qed

lemma positive_peak_guarded:
  assumes trans: "\<And>x y z. num_gt ar x y \<Longrightarrow> num_gt ar y z \<Longrightarrow> num_gt ar x z"
    and "num_gt ar p (num_lit ar 0)"
  shows "raises_guarded ar c p m pnls"
  using assms(2)
proof (induction pnls arbitrary: c p m)
  case Nil
  then show ?case by simp
next
  case (Cons pnl rest)
  let ?c = "num_add ar c pnl"
  let ?p = "if num_gt ar ?c p then ?c else p"
  have g: "num_gt ar ?p (num_lit ar 0)"
  proof (cases "num_gt ar ?c p")
    case True
    then have "num_gt ar ?c (num_lit ar 0)" using Cons.prems by (rule trans)
    with True show ?thesis by simp
  next
    case False
    with Cons.prems show ?thesis by simp
  qed
  have "\<And>m'. raises_guarded ar ?c ?p m' rest" using g by (rule Cons.IH)
  with g show ?case by (simp add: Let_def)
qed

subsection \<open>The exact arithmetic is an instance\<close>

lemma jgt_irrefl: "\<not> jgt x x"
  by (cases x) simp_all

lemma jgt_trans: "jgt x y \<Longrightarrow> jgt y z \<Longrightarrow> jgt x z"
  by (cases x; cases y; cases z) simp_all

lemma jfixed2_mono: "jgt (jfixed2 x) (jfixed2 y) \<Longrightarrow> jgt x y"
proof (cases x; cases y)
  fix a b
  assume "x = Num a" "y = Num b" "jgt (jfixed2 x) (jfixed2 y)"
  then have "toFixed2 b < toFixed2 a" by simp
  then have "b < a" using toFixed2_mono_all[of a b] by (cases "a \<le> b") simp_all
  with \<open>x = Num a\<close> \<open>y = Num b\<close> show "jgt x y" by simp
qed simp_all

lemma jfixed2_zero: "jfixed2 (Num 0) = Num 0"
  by (simp add: toFixed2_0)

lemma step_currentEquity: "currentEquity (metrics_step a t) = currentEquity a + netPnL t"
  by (simp add: metrics_step_def Let_def)

lemma metrics_step_maxDDPercent:
  "maxDDPercent (metrics_step a t) =
    (let c = currentEquity a + netPnL t;
         p = (if c > maxEquity a then c else maxEquity a);
         d = jmul (jdiv (Num (p - c)) (Num p)) (Num 100)
     in if jgt d (maxDDPercent a) then d else maxDDPercent a)"
  by (simp add: metrics_step_def Let_def)

lemma metrics_step_maxEquity:
  "maxEquity (metrics_step a t) =
    (if currentEquity a + netPnL t > maxEquity a then currentEquity a + netPnL t else maxEquity a)"
  by (simp add: metrics_step_def Let_def)

lemma metrics_dd_exact:
  "metrics_dd exact_arith (Num (currentEquity a)) (Num (maxEquity a)) (maxDDPercent a)
     (map (\<lambda>t. Num (netPnL t)) ts)
   = maxDDPercent (foldl metrics_step a ts)"
proof (induction ts arbitrary: a)
  case Nil
  then show ?case by simp
next
  case (Cons t ts)
  have "metrics_dd exact_arith (Num (currentEquity a)) (Num (maxEquity a)) (maxDDPercent a)
          (map (\<lambda>t. Num (netPnL t)) (t # ts))
      = metrics_dd exact_arith (Num (currentEquity (metrics_step a t)))
          (Num (maxEquity (metrics_step a t))) (maxDDPercent (metrics_step a t))
          (map (\<lambda>t. Num (netPnL t)) ts)"
    by (simp add: exact_arith_def Let_def step_currentEquity metrics_step_maxEquity
        metrics_step_maxDDPercent)
  then show ?case using Cons.IH[of "metrics_step a t"] by simp
qed

lemma curve_dd_exact:
  "curve_dd exact_arith (Num c) (Num p) (map (\<lambda>t. Num (netPnL t)) ts)
   = map (\<lambda>pt. Num (drawdown pt)) (curve_points rt c p ts)"
  by (induction ts arbitrary: c p) (simp_all add: exact_arith_def Let_def)

lemma maxDrawdownPercent_g_exact:
  "maxDrawdownPercent_g exact_arith ts B = maxDrawdownPercent (calculateMetrics ts B)"
proof -
  have "metrics_dd exact_arith (Num (currentEquity (metrics_init B))) (Num (maxEquity (metrics_init B)))
          (maxDDPercent (metrics_init B)) (map (\<lambda>t. Num (netPnL t)) (closedSorted ts))
      = maxDDPercent (foldl metrics_step (metrics_init B) (closedSorted ts))"
    by (rule metrics_dd_exact)
  then show ?thesis
    by (simp add: maxDrawdownPercent_g_def closed_pnls_def calculateMetrics_def metrics_result_def
        Let_def metrics_init_def exact_arith_def)
qed

lemma curve_drawdowns_g_exact:
  "curve_drawdowns_g exact_arith ts B = map (\<lambda>pt. Num (drawdown pt)) (generateEquityCurve rt ts B)"
proof -
  have "curve_dd exact_arith (Num B) (Num B) (map (\<lambda>t. Num (netPnL t)) (closedSorted ts))
      = map (\<lambda>pt. Num (drawdown pt)) (curve_points rt B B (closedSorted ts))"
    by (rule curve_dd_exact)
  then show ?thesis
    by (simp add: curve_drawdowns_g_def closed_pnls_def generateEquityCurve_def Let_def exact_arith_def)
qed

lemma exact_fixed2: "num_fixed2 exact_arith = jfixed2"
  by (simp add: exact_arith_def)

lemma exact_gt: "num_gt exact_arith = jgt"
  by (simp add: exact_arith_def)

lemma exact_lit: "num_lit exact_arith = Num"
  by (simp add: exact_arith_def)

subsection \<open>Two-trade evaluations\<close>





subsection \<open>The clock\<close>

lemma generateEquityCurve_clock:
  "generateEquityCurve (rt\<lparr>now := n\<rparr>) ts B =
   (if filter (\<lambda>t. status t = CLOSED) ts = []
    then [\<lparr> date = ''Start'', timestamp = n, equity = B, drawdown = 0 \<rparr>]
    else generateEquityCurve rt ts B)"
proof (cases "closedSorted ts")
  case Nil
  then show ?thesis using closedSorted_Nil[of ts]
    by (simp add: generateEquityCurve_def Let_def)
next
  case (Cons t rest)
  then show ?thesis using closedSorted_Nil[of ts]
    by (simp add: generateEquityCurve_def Let_def curve_points_now)
qed

subsection \<open>The functions on a store compute what the functions on lists compute\<close>

lemma calculateMetrics_h_result:
  "fst (calculateMetrics_h a B s) = calculateMetrics (array_read a s) B"
  by (simp add: calculateMetrics_h_def calculateMetrics_def array_filter_def array_sort_def
      array_read_def closedSorted_def Let_def sort_key_map filter_map comp_def)

lemma generateEquityCurve_h_result:
  "fst (generateEquityCurve_h rt a B s) = generateEquityCurve rt (array_read a s) B"
  by (simp add: generateEquityCurve_h_def generateEquityCurve_def array_filter_def array_sort_def
      array_read_def closedSorted_def Let_def sort_key_map filter_map comp_def)

lemma getTradeViolations_h_result:
  "fst (getTradeViolations_h rt t a p s) = getTradeViolations rt (objects s t) (array_read a s) p"
  by (simp add: getTradeViolations_h_def getTradeViolations_def array_filter_def array_sort_def
      array_read_def previousTrades_def Let_def sort_key_map filter_map comp_def)

lemma calculateMetrics_h_read:
  "a < nextArray s \<Longrightarrow> array_read a (snd (calculateMetrics_h trades B s)) = array_read a s"
  by (simp add: calculateMetrics_h_def array_filter_def array_sort_def array_read_def Let_def)

lemma generateEquityCurve_h_read:
  "a < nextArray s \<Longrightarrow> array_read a (snd (generateEquityCurve_h rt trades B s)) = array_read a s"
  by (simp add: generateEquityCurve_h_def array_filter_def array_sort_def array_read_def Let_def)

lemma array_read_store0:
  "array_read 0 store0 = [pending_win\<lparr>status := CLOSED\<rparr>, closed_loss]"
  by (simp add: array_read_def store0_def)

subsection \<open>The revenge-trading check\<close>

lemma revenge_not_risk: "revenge_message \<notin> set (risk_check rt trade profile)"
  by (simp add: risk_check_def revenge_message_def Let_def)

lemma revenge_not_session: "revenge_message \<notin> set (session_check trade)"
  by (simp add: session_check_def revenge_message_def Let_def split: Session.split)

lemma revenge_in_violations:
  "(revenge_message \<in> set (getTradeViolations rt trade allTrades profile))
   = (revenge_message \<in> set (revenge_check trade (previousTrades trade allTrades)))"
  by (simp add: getTradeViolations_def revenge_not_risk revenge_not_session)

text \<open>The head of the stable descending sort is the first trade with the latest exitDate.\<close>

lemma latest_exit_sort:
  "latest_exit xs = (case sort_key (\<lambda>t. - exitOr0 t) xs of [] \<Rightarrow> None | p # _ \<Rightarrow> Some p)"
proof (induction xs)
  case Nil
  then show ?case by simp
next
  case (Cons x xs)
  show ?case
  proof (cases "sort_key (\<lambda>t. - exitOr0 t) xs")
    case Nil
    with Cons show ?thesis by simp
  next
    case (Cons p rest)
    with Cons.IH show ?thesis by auto
  qed
qed

lemma latest_exit_None: "(latest_exit xs = None) = (xs = [])"
  by (induction xs) (simp_all split: option.split)

lemma latest_exit_max:
  "latest_exit xs = Some p \<Longrightarrow> p \<in> set xs \<and> (\<forall>q\<in>set xs. exitOr0 q \<le> exitOr0 p)"
proof (induction xs arbitrary: p)
  case Nil
  then show ?case by simp
next
  case (Cons x xs)
  show ?case
  proof (cases "latest_exit xs")
    case None
    then have "xs = []" by (simp add: latest_exit_None)
    with None Cons.prems show ?thesis by simp
  next
    case (Some q)
    with Cons.IH have q: "q \<in> set xs" "\<forall>r\<in>set xs. exitOr0 r \<le> exitOr0 q" by simp_all
    show ?thesis
    proof (cases "exitOr0 q > exitOr0 x")
      case True
      with Some Cons.prems have "p = q" by simp
      with q True show ?thesis by simp
    next
      case False
      with Some Cons.prems have "p = x" by simp
      with q False show ?thesis by fastforce
    qed
  qed
qed

lemma latest_exit_first:
  "latest_exit xs = Some p \<Longrightarrow>
     \<exists>ys zs. xs = ys @ p # zs \<and> (\<forall>y\<in>set ys. exitOr0 y < exitOr0 p)"
proof (induction xs arbitrary: p)
  case Nil
  then show ?case by simp
next
  case (Cons x xs)
  show ?case
  proof (cases "latest_exit xs")
    case None
    with Cons.prems have "p = x" by simp
    then have "x # xs = [] @ p # xs \<and> (\<forall>y\<in>set []. exitOr0 y < exitOr0 p)" by simp
    then show ?thesis by blast
  next
    case (Some q)
    show ?thesis
    proof (cases "exitOr0 q > exitOr0 x")
      case True
      with Some Cons.prems have pq: "p = q" by simp
      with Some Cons.IH obtain ys zs where
        "xs = ys @ p # zs" "\<forall>y\<in>set ys. exitOr0 y < exitOr0 p" by blast
      with True pq have "x # xs = (x # ys) @ p # zs \<and> (\<forall>y\<in>set (x # ys). exitOr0 y < exitOr0 p)"
        by simp
      then show ?thesis by blast
    next
      case False
      with Some Cons.prems have "p = x" by simp
      then have "x # xs = [] @ p # xs \<and> (\<forall>y\<in>set []. exitOr0 y < exitOr0 p)" by simp
      then show ?thesis by blast
    qed
  qed
qed

lemma previous_filter_eq: "previous_filter trade = exit_nonzero_before trade"
  by (rule ext) (simp add: previous_filter_def exit_nonzero_before_def truthy_def exitOr0_def
      split: option.split)

lemma previousTrades_truthy:
  "t \<in> set (previousTrades trade allTrades) \<Longrightarrow> truthy (exitDate t)"
  by (simp add: previousTrades_def previous_filter_def)

lemma previous_filter_status: "previous_filter trade (t\<lparr>status := x\<rparr>) = previous_filter trade t"
  by (simp add: previous_filter_def exitOr0_def)

lemma previousTrades_status:
  "previousTrades trade (map (\<lambda>t. t\<lparr>status := f t\<rparr>) allTrades)
   = map (\<lambda>t. t\<lparr>status := f t\<rparr>) (previousTrades trade allTrades)"
  by (simp add: previousTrades_def sort_key_map filter_map comp_def previous_filter_status exitOr0_def)

lemma revenge_check_status:
  "revenge_check trade (map (\<lambda>t. t\<lparr>status := f t\<rparr>) ys) = revenge_check trade ys"
  by (cases ys) (simp_all add: revenge_check_def exitOr0_def)

lemma violations_status:
  "getTradeViolations rt trade (map (\<lambda>t. t\<lparr>status := f t\<rparr>) allTrades) profile
   = getTradeViolations rt trade allTrades profile"
  by (simp add: getTradeViolations_def previousTrades_status revenge_check_status)

lemma previousTrades_member:
  "(t \<in> set (previousTrades trade allTrades))
   = (t \<in> set allTrades \<and> id_t t \<noteq> id_t trade
      \<and> (\<exists>e. exitDate t = Some e \<and> e \<noteq> 0 \<and> e \<le> entryDate trade))"
  by (auto simp add: previousTrades_def previous_filter_def truthy_def exitOr0_def
      split: option.splits)

lemma previousTrades_drop_zero:
  "previousTrades trade (filter (\<lambda>t. exitDate t \<noteq> Some 0) allTrades) = previousTrades trade allTrades"
proof -
  have "(\<lambda>t. exitDate t \<noteq> Some 0 \<and> previous_filter trade t) = previous_filter trade"
    by (rule ext) (auto simp add: previous_filter_def truthy_def)
  then show ?thesis by (simp add: previousTrades_def)
qed

lemma violations_drop_zero:
  "getTradeViolations rt trade (filter (\<lambda>t. exitDate t \<noteq> Some 0) allTrades) profile
   = getTradeViolations rt trade allTrades profile"
  by (simp add: getTradeViolations_def previousTrades_drop_zero)

lemma open_loss_triggers:
  "revenge_message \<in> set (getTradeViolations rt0 late_entry [open_loss] None)"
  by (simp add: getTradeViolations_def previousTrades_def previous_filter_def truthy_def
      revenge_check_def REVENGE_WINDOW_MS_def exitOr0_def late_entry_def open_loss_def)

lemma closed_loss_triggers:
  "revenge_message \<in> set (getTradeViolations rt0 late_entry [closed_loss] None)"
  by (simp add: getTradeViolations_def previousTrades_def previous_filter_def truthy_def
      revenge_check_def REVENGE_WINDOW_MS_def exitOr0_def late_entry_def closed_loss_def)

lemma pending_win_masks:
  "revenge_message \<notin> set (getTradeViolations rt0 late_entry [closed_loss, pending_win] None)"
  by (simp add: getTradeViolations_def previousTrades_def previous_filter_def truthy_def
      revenge_check_def REVENGE_WINDOW_MS_def exitOr0_def late_entry_def closed_loss_def
      pending_win_def risk_check_def session_check_def revenge_message_def)

subsection \<open>The specification's worked examples\<close>

lemma closedSorted_spec_trades:
  "closedSorted spec_trades = [spec_trade ''A'' 1700000100000 1000,
     spec_trade ''B'' 1700000200000 (- 2000), spec_trade ''C'' 1700000300000 500]"
  by (simp add: closedSorted_def spec_trades_def spec_trade_def exitOr0_def)

lemma spec_example_metrics:
  "maxDrawdown (calculateMetrics spec_trades 10000) = 2000"
  "maxDrawdownPercent (calculateMetrics spec_trades 10000) = Num (200 / 11)"
  "netProfit (calculateMetrics spec_trades 10000) = - 500"
  "winRate (calculateMetrics spec_trades 10000) = Num (200 / 3)"
  unfolding calculateMetrics_def closedSorted_spec_trades Let_def
  by (simp_all add: metrics_result_def metrics_init_def metrics_step_def Let_def spec_trade_def)

lemma spec_example_curve:
  "map equity (generateEquityCurve rt0 spec_trades 10000) = [10000, 11000, 9000, 9500]"
  "map drawdown (generateEquityCurve rt0 spec_trades 10000) = [0, 0, 1818 / 100, 1364 / 100]"
  unfolding generateEquityCurve_def closedSorted_spec_trades Let_def
  by (simp_all add: spec_trade_def toFixed2_def Let_def)

lemma spec_example_empty:
  "netProfit (calculateMetrics [] B) = 0"
  "winRate (calculateMetrics [] B) = Num 0"
  "profitFactor (calculateMetrics [] B) = Num 0"
  by (simp_all add: calculateMetrics_def closedSorted_def metrics_result_def metrics_init_def Let_def)

lemma spec_example_revenge:
  "revenge_message \<in> set (getTradeViolations rt
      ((spec_trade ''B'' 0 0)\<lparr>entryDate := 1000 + 10 * 60 * 1000\<rparr>) [spec_trade ''A'' 1000 (- 100)] None)"
  "revenge_message \<notin> set (getTradeViolations rt
      ((spec_trade ''B'' 0 0)\<lparr>entryDate := 1000 + 40 * 60 * 1000\<rparr>) [spec_trade ''A'' 1000 (- 100)] None)"
  by (simp_all add: revenge_in_violations previousTrades_def previous_filter_def truthy_def
      revenge_check_def REVENGE_WINDOW_MS_def exitOr0_def spec_trade_def)

lemma spec_example_session:
  "session_check ((spec_trade ''B'' 0 0)\<lparr>entryDate := 3 * 3600000, session := LONDON\<rparr>)
     = [''Trade executed outside London session'']"
  "session_check ((spec_trade ''B'' 0 0)\<lparr>entryDate := 10 * 3600000, session := LONDON\<rparr>) = []"
  by (simp_all add: session_check_def getUTCHours_def hour_lt_def hour_ge_def spec_trade_def)

lemma spec_example_risk:
  "getTradeViolations rt ((spec_trade ''B'' 0 0)\<lparr>riskAmount := 300\<rparr>) []
      (Some \<lparr>startBalance = 10000, maxRiskPerTrade = 2\<rparr>)
     = [''Risk ($'' @ numberToString rt 300 @ '') exceeds max limit ($'' @ toFixed0 rt 200 @ '')'']"
  "getTradeViolations rt ((spec_trade ''B'' 0 0)\<lparr>riskAmount := 150\<rparr>) []
      (Some \<lparr>startBalance = 10000, maxRiskPerTrade = 2\<rparr>) = []"
  by (simp_all add: getTradeViolations_def risk_check_def session_check_def revenge_check_def
      previousTrades_def spec_trade_def Let_def)

section \<open>The claims\<close>

text \<open>
  C1 (the code diverges). The claim: every division of \<^verbatim>\<open>calculateMetrics\<close> is
  guarded, the peak = 0 case of the drawdown percentage being defined as 0, so that
  \<^verbatim>\<open>maxDrawdownPercent\<close> is always finite. The code divides by the peak without a guard
  (line 28), where \<^verbatim>\<open>generateEquityCurve\<close> has one (line 101): with a starting
  balance of 0 and one losing trade the peak stays 0, the drawdown is 100, and
  \<^verbatim>\<open>maxDrawdownPercent\<close> is \<^verbatim>\<open>Infinity\<close>.
\<close>

theorem calculateMetrics_zero_balance_infinite:
  "maxDrawdownPercent (calculateMetrics [losing_trade] 0) = PInf
   \<and> \<not> isFinite (maxDrawdownPercent (calculateMetrics [losing_trade] 0))"
  by (simp add: calculateMetrics_def closedSorted_def losing_trade_def metrics_result_def
        metrics_init_def metrics_step_def Let_def)



text \<open>
  C3 (amended). A second call on the same array, made on the store the first call left
  and at a later reading of the clock, returns what the first call returned: always for
  \<^verbatim>\<open>calculateMetrics\<close>, and for \<^verbatim>\<open>generateEquityCurve\<close> whenever the array
  holds a CLOSED trade. With no CLOSED trade the curve is the single Start point stamped
  with the clock reading of that call.
\<close>

theorem repeated_call_same_output:
  assumes "trades < nextArray s"
  shows "fst (calculateMetrics_h trades B (snd (calculateMetrics_h trades B s)))
           = fst (calculateMetrics_h trades B s)
       \<and> fst (generateEquityCurve_h (rt\<lparr>now := n\<rparr>) trades B
                (snd (generateEquityCurve_h rt trades B s)))
           = (if filter (\<lambda>t. status t = CLOSED) (array_read trades s) = []
              then [\<lparr> date = ''Start'', timestamp = n, equity = B, drawdown = 0 \<rparr>]
              else fst (generateEquityCurve_h rt trades B s))"
  using assms
  by (simp only: calculateMetrics_h_result generateEquityCurve_h_result calculateMetrics_h_read
      generateEquityCurve_h_read generateEquityCurve_clock)

theorem repeated_call_same_output_witness:
  "fst (calculateMetrics_h 0 1000 (snd (calculateMetrics_h 0 1000 store0)))
     = fst (calculateMetrics_h 0 1000 store0)
   \<and> fst (generateEquityCurve_h (rt0\<lparr>now := 1700000000001\<rparr>) 0 1000
          (snd (generateEquityCurve_h rt0 0 1000 store0)))
     = fst (generateEquityCurve_h rt0 0 1000 store0)"
proof -
  have h: "0 < nextArray store0" by (simp add: store0_def)
  have c: "filter (\<lambda>t. status t = CLOSED) (array_read 0 store0) \<noteq> []"
    by (simp add: array_read_store0 closed_loss_def)
  show ?thesis
    using repeated_call_same_output[OF h, where B = 1000 and rt = rt0 and n = 1700000000001] c
    by simp
qed

text \<open>
  The claim as stated fails: on an input with no CLOSED trade, two calls one millisecond
  apart return different curves.
\<close>

theorem generateEquityCurve_clock_counterexample:
  "generateEquityCurve (rt0\<lparr>now := 1700000000000\<rparr>) [] 1000
   \<noteq> generateEquityCurve (rt0\<lparr>now := 1700000000001\<rparr>) [] 1000"
  by (simp add: generateEquityCurve_def closedSorted_def Let_def)

text \<open>
  C4 (amended). Whenever the running peak is greater than 0 at every trade where
  \<^verbatim>\<open>calculateMetrics\<close> raises its maximum drawdown percentage (in particular
  whenever the starting balance is greater than 0), \<^verbatim>\<open>maxDrawdownPercent\<close> rounded
  by \<^verbatim>\<open>Number(x.toFixed(2))\<close> is the maximum of the curve's per-point drawdown values,
  the Start point contributing 0: it is the drawdown of one of the points, and no point's
  drawdown is greater than it.

  The statement is for every arithmetic with four properties, all of which IEEE doubles
  have: \<^verbatim>\<open>x > x\<close> is false; \<^verbatim>\<open>>\<close> is transitive; rounding is monotone, in the
  form that \<^verbatim>\<open>Number(x.toFixed(2)) > Number(y.toFixed(2))\<close> implies \<^verbatim>\<open>x > y\<close>
  (\<^verbatim>\<open>toFixed\<close> picks the nearest multiple of 0.01 of the exact value, the string is
  read back to the nearest double, and \<^verbatim>\<open>NaN\<close> stays \<^verbatim>\<open>NaN\<close>, which is greater than
  nothing); and \<^verbatim>\<open>Number((0).toFixed(2))\<close> is 0. Nothing is assumed about
  \<^verbatim>\<open>+\<close>, \<^verbatim>\<open>-\<close>, \<^verbatim>\<open>*\<close> and \<^verbatim>\<open>/\<close>, so rounding, overflow and a value
  of \<^verbatim>\<open>Infinity\<close> or \<^verbatim>\<open>NaN\<close> are all covered.
\<close>

theorem rounded_maxDrawdownPercent_is_curve_maximum:
  assumes irrefl: "\<And>x. \<not> num_gt ar x x"
    and trans: "\<And>x y z. num_gt ar x y \<Longrightarrow> num_gt ar y z \<Longrightarrow> num_gt ar x z"
    and mono: "\<And>x y. num_gt ar (num_fixed2 ar x) (num_fixed2 ar y) \<Longrightarrow> num_gt ar x y"
    and zero: "num_fixed2 ar (num_lit ar 0) = num_lit ar 0"
    and guard: "num_gt ar (num_lit ar B) (num_lit ar 0) \<or> raises_guarded_g ar trades B"
  shows "num_fixed2 ar (maxDrawdownPercent_g ar trades B) \<in> set (curve_drawdowns_g ar trades B)
       \<and> (\<forall>x\<in>set (curve_drawdowns_g ar trades B).
             \<not> num_gt ar x (num_fixed2 ar (maxDrawdownPercent_g ar trades B)))"
proof -
  let ?b = "num_lit ar B"
  let ?z = "num_lit ar 0"
  let ?pnls = "closed_pnls ar trades"
  let ?M = "metrics_dd ar ?b ?b ?z ?pnls"
  have g: "raises_guarded ar ?b ?b ?z ?pnls"
  proof (cases "num_gt ar ?b ?z")
    case True
    with trans show ?thesis by (rule positive_peak_guarded)
  next
    case False
    with guard show ?thesis by (simp add: raises_guarded_g_def)
  qed
  have "num_fixed2 ar ?M = num_fixed2 ar ?z \<or> num_fixed2 ar ?M \<in> set (curve_dd ar ?b ?b ?pnls)"
    using g by (rule curve_dd_attained)
  then have a: "num_fixed2 ar ?M \<in> set (?z # curve_dd ar ?b ?b ?pnls)"
    unfolding zero by auto
  have z0: "\<not> num_gt ar ?z ?z" by (rule irrefl)
  have zM: "\<not> num_gt ar ?z ?M" using trans z0 by (rule metrics_dd_not_below)
  have "\<not> num_gt ar (num_fixed2 ar ?z) (num_fixed2 ar ?M)"
  proof
    assume "num_gt ar (num_fixed2 ar ?z) (num_fixed2 ar ?M)"
    then have "num_gt ar ?z ?M" by (rule mono)
    with zM show False by simp
  qed
  with zero have s: "\<not> num_gt ar ?z (num_fixed2 ar ?M)" by simp
  have r: "\<forall>x\<in>set (curve_dd ar ?b ?b ?pnls). \<not> num_gt ar x (num_fixed2 ar ?M)"
    using irrefl trans mono z0 by (rule curve_dd_none_greater)
  from a s r show ?thesis
    unfolding maxDrawdownPercent_g_def curve_drawdowns_g_def by simp
qed

text \<open>
  With the exact arithmetic, on the functions themselves: one loss of 100 on a balance of
  300 (the balance is greater than 0), and on a balance of -100 (the maximum is never
  raised).
\<close>

theorem rounded_maxDrawdownPercent_is_curve_maximum_witness:
  "jfixed2 (maxDrawdownPercent (calculateMetrics [losing_trade] 300))
     \<in> set (map (\<lambda>pt. Num (drawdown pt)) (generateEquityCurve rt0 [losing_trade] 300))
   \<and> jfixed2 (maxDrawdownPercent (calculateMetrics [losing_trade] (- 100)))
     \<in> set (map (\<lambda>pt. Num (drawdown pt)) (generateEquityCurve rt0 [losing_trade] (- 100)))"
proof -
  have i: "\<And>x. \<not> num_gt exact_arith x x"
    by (simp add: exact_gt jgt_irrefl)
  have t: "\<And>x y z. num_gt exact_arith x y \<Longrightarrow> num_gt exact_arith y z \<Longrightarrow> num_gt exact_arith x z"
    unfolding exact_gt by (rule jgt_trans)
  have m: "\<And>x y. num_gt exact_arith (num_fixed2 exact_arith x) (num_fixed2 exact_arith y)
             \<Longrightarrow> num_gt exact_arith x y"
    unfolding exact_gt exact_fixed2 by (rule jfixed2_mono)
  have z: "num_fixed2 exact_arith (num_lit exact_arith 0) = num_lit exact_arith 0"
    unfolding exact_fixed2 exact_lit by (rule jfixed2_zero)
  have g1: "num_gt exact_arith (num_lit exact_arith 300) (num_lit exact_arith 0)
            \<or> raises_guarded_g exact_arith [losing_trade] 300"
    by (simp add: exact_gt exact_lit)
  have g2: "num_gt exact_arith (num_lit exact_arith (- 100)) (num_lit exact_arith 0)
            \<or> raises_guarded_g exact_arith [losing_trade] (- 100)"
    by (simp add: raises_guarded_g_def closed_pnls_def closedSorted_def losing_trade_def
        exact_arith_def Let_def)
  have a: "num_fixed2 exact_arith (maxDrawdownPercent_g exact_arith [losing_trade] 300)
           \<in> set (curve_drawdowns_g exact_arith [losing_trade] 300)"
    using rounded_maxDrawdownPercent_is_curve_maximum[OF i t m z g1] by (rule conjunct1)
  have b: "num_fixed2 exact_arith (maxDrawdownPercent_g exact_arith [losing_trade] (- 100))
           \<in> set (curve_drawdowns_g exact_arith [losing_trade] (- 100))"
    using rounded_maxDrawdownPercent_is_curve_maximum[OF i t m z g2] by (rule conjunct1)
  from a b show ?thesis
    unfolding maxDrawdownPercent_g_exact curve_drawdowns_g_exact[where rt = rt0] exact_fixed2
    by simp
qed

text \<open>
  The claim as stated fails: with balance 300 and one loss of 100 the metric is 100/3 and
  the curve's largest drawdown is 33.33; with balance 0 and the same loss the metric is
  \<^verbatim>\<open>Infinity\<close> (the unguarded division of C1) and every point of the curve has drawdown 0.
\<close>

theorem maxDrawdownPercent_curve_max_counterexample:
  "maxDrawdownPercent (calculateMetrics [losing_trade] 300) = Num (100 / 3)
   \<and> Max (set (map drawdown (generateEquityCurve rt0 [losing_trade] 300))) = 3333 / 100
   \<and> maxDrawdownPercent (calculateMetrics [losing_trade] 300)
       \<noteq> Num (Max (set (map drawdown (generateEquityCurve rt0 [losing_trade] 300))))
   \<and> maxDrawdownPercent (calculateMetrics [losing_trade] 0) = PInf
   \<and> map drawdown (generateEquityCurve rt0 [losing_trade] 0) = [0, 0]"
proof -
  have a: "maxDrawdownPercent (calculateMetrics [losing_trade] 300) = Num (100 / 3)"
    by (simp add: calculateMetrics_def closedSorted_def losing_trade_def metrics_result_def
        metrics_init_def metrics_step_def Let_def)
  have b: "Max (set (map drawdown (generateEquityCurve rt0 [losing_trade] 300))) = 3333 / 100"
    by (simp add: generateEquityCurve_def closedSorted_def losing_trade_def Let_def toFixed2_def)
  have c: "maxDrawdownPercent (calculateMetrics [losing_trade] 0) = PInf"
    by (simp add: calculateMetrics_def closedSorted_def losing_trade_def metrics_result_def
        metrics_init_def metrics_step_def Let_def)
  have d: "map drawdown (generateEquityCurve rt0 [losing_trade] 0) = [0, 0]"
    by (simp add: generateEquityCurve_def closedSorted_def losing_trade_def Let_def toFixed2_def)
  show ?thesis by (simp only: a b c d) simp
qed




text \<open>
  C6 (amended). The curve has one point per CLOSED trade, with or without an exitDate,
  plus the Start point.
\<close>

theorem generateEquityCurve_length:
  "length (generateEquityCurve rt ts B) = length (filter (\<lambda>t. status t = CLOSED) ts) + 1"
  by (simp add: generateEquityCurve_def closedSorted_def length_curve_points Let_def)

text \<open>The claim as stated fails: a CLOSED trade with no exitDate gets a point.\<close>

theorem generateEquityCurve_length_counterexample:
  "length (generateEquityCurve rt0 [closed_no_exit] 1000) \<noteq>
   length (filter (\<lambda>t. status t = CLOSED \<and> exitDate t \<noteq> None) [closed_no_exit]) + 1"
  by (simp add: generateEquityCurve_def closedSorted_def closed_no_exit_def Let_def)

text \<open>
  C7 (amended). The per-trade points are in non-decreasing timestamp order. With the Start
  point in front the list is in non-decreasing order exactly when there is no CLOSED
  trade, or the first sorted trade's entryDate minus one day is at most its exitDate (0
  when missing).
\<close>

theorem generateEquityCurve_timestamps:
  "sorted (map timestamp (tl (generateEquityCurve rt ts B)))
   \<and> (sorted (map timestamp (generateEquityCurve rt ts B)) =
      (case closedSorted ts of [] \<Rightarrow> True | t # _ \<Rightarrow> entryDate t - 86400000 \<le> exitOr0 t))"
proof -
  have s: "sorted (map exitOr0 (closedSorted ts))"
    by (simp add: closedSorted_def)
  show ?thesis
  proof (cases "closedSorted ts")
    case Nil
    then show ?thesis by (simp add: generateEquityCurve_def Let_def)
  next
    case (Cons t rest)
    with s have "\<forall>x\<in>set rest. exitOr0 t \<le> exitOr0 x" "sorted (map exitOr0 rest)" by auto
    with Cons show ?thesis
      by (auto simp add: generateEquityCurve_def Let_def timestamp_curve_points)
  qed
qed

text \<open>
  The claim as stated fails: for a CLOSED trade with no exitDate the Start point is
  stamped one day before the entry, the trade's point is stamped 0.
\<close>

theorem generateEquityCurve_start_after_first:
  "\<not> sorted (map timestamp (generateEquityCurve rt0 [closed_no_exit] 1000))"
  by (simp add: generateEquityCurve_def closedSorted_def closed_no_exit_def Let_def exitOr0_def)

text \<open>
  C8 (amended). The revenge-trading warning is among the violations of a trade T exactly
  when, among the trades other than T (by id) whose exitDate is defined, not 0, and at or
  before T's entryDate, the one with the latest exitDate (the first such in
  \<^verbatim>\<open>allTrades\<close> when several share it) has netPnL < 0 and T's entryDate is less than 30
  minutes after that exitDate; with no such trade there is no warning.
\<close>

theorem revenge_warning_iff:
  "(revenge_message \<in> set (getTradeViolations rt trade allTrades profile))
   = revenge_rule trade (latest_exit (filter (exit_nonzero_before trade) allTrades))"
proof (cases "previousTrades trade allTrades")
  case Nil
  then show ?thesis
    by (simp add: revenge_in_violations revenge_check_def revenge_rule_def latest_exit_sort
        previous_filter_eq[symmetric] previousTrades_def[symmetric])
next
  case (Cons p rest)
  then have "truthy (exitDate p)"
    using previousTrades_truthy[of p trade allTrades] by simp
  with Cons show ?thesis
    by (simp add: revenge_in_violations revenge_check_def revenge_rule_def latest_exit_sort
        previous_filter_eq[symmetric] previousTrades_def[symmetric] REVENGE_WINDOW_MS_def)
qed

text \<open>
  The claim as stated fails: a loss whose exitDate is 0 (defined, and before the entry one
  minute later) satisfies the stated condition, and no warning is emitted.
\<close>

theorem revenge_exit_zero_counterexample:
  "revenge_rule epoch_entry (latest_exit (filter (exit_defined_before epoch_entry) [epoch_loss]))
   \<and> revenge_message \<notin> set (getTradeViolations rt0 epoch_entry [epoch_loss] None)"
  by (simp add: revenge_rule_def exit_defined_before_def epoch_entry_def epoch_loss_def exitOr0_def
      getTradeViolations_def previousTrades_def previous_filter_def truthy_def
      risk_check_def session_check_def revenge_check_def Let_def)

text \<open>
  C9. None of the three functions changes an array that existed before the call (the
  caller's \<^verbatim>\<open>trades\<close> array among them: same references, same order, same length) or
  any trade object: \<^verbatim>\<open>filter\<close> writes to a fresh array, \<^verbatim>\<open>sort\<close> sorts that
  fresh array, and no field of a trade is assigned.
\<close>

theorem inputs_not_mutated:
  "a < nextArray s \<Longrightarrow>
     arrays (snd (calculateMetrics_h trades B s)) a = arrays s a
   \<and> objects (snd (calculateMetrics_h trades B s)) = objects s
   \<and> arrays (snd (generateEquityCurve_h rt trades B s)) a = arrays s a
   \<and> objects (snd (generateEquityCurve_h rt trades B s)) = objects s
   \<and> arrays (snd (getTradeViolations_h rt t trades p s)) a = arrays s a
   \<and> objects (snd (getTradeViolations_h rt t trades p s)) = objects s"
  by (simp add: calculateMetrics_h_def generateEquityCurve_h_def getTradeViolations_h_def
      array_filter_def array_sort_def Let_def)

text \<open>
  On \<open>store0\<close> the caller's array stays \<open>[0, 1]\<close> while the fresh array at address 1
  holds the sorted references \<open>[1, 0]\<close>.
\<close>

theorem inputs_not_mutated_witness:
  "arrays (snd (calculateMetrics_h 0 1000 store0)) 0 = [0, 1]
   \<and> arrays (snd (generateEquityCurve_h rt0 0 1000 store0)) 0 = [0, 1]
   \<and> arrays (snd (getTradeViolations_h rt0 1 0 None store0)) 0 = [0, 1]
   \<and> arrays (snd (calculateMetrics_h 0 1000 store0)) 1 = [1, 0]"
proof -
  have h: "0 < nextArray store0" by (simp add: store0_def)
  have s: "arrays (snd (calculateMetrics_h 0 1000 store0)) 1 = [1, 0]"
    by (simp add: calculateMetrics_h_def array_filter_def array_sort_def Let_def store0_def
        pending_win_def closed_loss_def exitOr0_def)
  have a: "arrays store0 0 = [0, 1]" by (simp add: store0_def)
  show ?thesis
    using inputs_not_mutated[OF h, where trades = 0 and B = 1000 and rt = rt0 and t = 1 and p = None]
      s a
    by simp
qed

text \<open>
  C10. The revenge-trading search never reads a trade's status: rewriting every status
  leaves the violations unchanged, and a trade is among the preceding trades exactly when
  it is in \<^verbatim>\<open>allTrades\<close>, has another id, and has an exitDate that is set, not 0, and at
  or before the examined trade's entryDate. Trades whose exitDate is 0 can be removed
  without changing the result. An OPEN loss with an exitDate triggers the warning, and a
  PENDING win with a later exitDate masks the warning that a CLOSED loss would trigger.
\<close>

theorem revenge_search_ignores_status:
  "getTradeViolations rt trade (map (\<lambda>t. t\<lparr>status := f t\<rparr>) allTrades) profile
     = getTradeViolations rt trade allTrades profile
   \<and> (t \<in> set (previousTrades trade allTrades))
     = (t \<in> set allTrades \<and> id_t t \<noteq> id_t trade
        \<and> (\<exists>e. exitDate t = Some e \<and> e \<noteq> 0 \<and> e \<le> entryDate trade))
   \<and> getTradeViolations rt trade (filter (\<lambda>t. exitDate t \<noteq> Some 0) allTrades) profile
     = getTradeViolations rt trade allTrades profile
   \<and> status open_loss = OPEN
   \<and> revenge_message \<in> set (getTradeViolations rt0 late_entry [open_loss] None)
   \<and> status pending_win = PENDING
   \<and> revenge_message \<in> set (getTradeViolations rt0 late_entry [closed_loss] None)
   \<and> revenge_message \<notin> set (getTradeViolations rt0 late_entry [closed_loss, pending_win] None)"
proof -
  have "status open_loss = OPEN" "status pending_win = PENDING"
    by (simp_all add: open_loss_def pending_win_def)
  then show ?thesis
    by (simp only: violations_status previousTrades_member violations_drop_zero
        open_loss_triggers closed_loss_triggers pending_win_masks simp_thms)
qed

end
